theory Spec2Isabelle
  imports Complex_Main
begin

section \<open>JavaScript numbers\<close>

text \<open>
  The engine computes on JavaScript numbers. A number is modelled as an exact real or one
  of the three non-finite values that the arithmetic of the source can produce from finite
  inputs (a division by zero, a read past the end of an array). Rounding to 64-bit
  precision, overflow to infinity and the sign of zero are not modelled: every zero
  divisor the code can reach is a literal \<open>0\<close>, a sum started at \<open>0\<close> or an input.
  Values read from candles, positions and parameters are finite, so they are \<open>real\<close>.
\<close>

datatype jsnum = Num real | PInf | NInf | NaN

fun jneg :: "jsnum \<Rightarrow> jsnum" where
  "jneg (Num a) = Num (- a)"
| "jneg PInf = NInf"
| "jneg NInf = PInf"
| "jneg NaN = NaN"

fun jadd :: "jsnum \<Rightarrow> jsnum \<Rightarrow> jsnum" where
  "jadd (Num a) (Num b) = Num (a + b)"
| "jadd NaN _ = NaN"
| "jadd _ NaN = NaN"
| "jadd PInf NInf = NaN"
| "jadd NInf PInf = NaN"
| "jadd PInf _ = PInf"
| "jadd _ PInf = PInf"
| "jadd NInf _ = NInf"
| "jadd _ NInf = NInf"

definition jsub :: "jsnum \<Rightarrow> jsnum \<Rightarrow> jsnum" where
  "jsub x y = jadd x (jneg y)"

text \<open>The sign of an infinite product or quotient; a zero operand gives \<open>NaN\<close>.\<close>

definition inf_signed :: "bool \<Rightarrow> jsnum" where
  "inf_signed positive = (if positive then PInf else NInf)"

fun jmul :: "jsnum \<Rightarrow> jsnum \<Rightarrow> jsnum" where
  "jmul (Num a) (Num b) = Num (a * b)"
| "jmul NaN _ = NaN"
| "jmul _ NaN = NaN"
| "jmul (Num a) PInf = (if a = 0 then NaN else inf_signed (0 < a))"
| "jmul (Num a) NInf = (if a = 0 then NaN else inf_signed (a < 0))"
| "jmul PInf (Num b) = (if b = 0 then NaN else inf_signed (0 < b))"
| "jmul NInf (Num b) = (if b = 0 then NaN else inf_signed (b < 0))"
| "jmul PInf PInf = PInf"
| "jmul PInf NInf = NInf"
| "jmul NInf PInf = NInf"
| "jmul NInf NInf = PInf"

fun jdiv :: "jsnum \<Rightarrow> jsnum \<Rightarrow> jsnum" where
  "jdiv (Num a) (Num b) =
     (if b \<noteq> 0 then Num (a / b) else if a = 0 then NaN else inf_signed (0 < a))"
| "jdiv NaN _ = NaN"
| "jdiv _ NaN = NaN"
| "jdiv (Num a) PInf = Num 0"
| "jdiv (Num a) NInf = Num 0"
| "jdiv PInf (Num b) = inf_signed (0 \<le> b)"
| "jdiv NInf (Num b) = inf_signed (b < 0)"
| "jdiv PInf PInf = NaN"
| "jdiv PInf NInf = NaN"
| "jdiv NInf PInf = NaN"
| "jdiv NInf NInf = NaN"

text \<open>Comparisons: every comparison with \<open>NaN\<close> is false.\<close>

fun jlt :: "jsnum \<Rightarrow> jsnum \<Rightarrow> bool" where
  "jlt (Num a) (Num b) = (a < b)"
| "jlt NaN _ = False"
| "jlt _ NaN = False"
| "jlt _ NInf = False"
| "jlt PInf _ = False"
| "jlt NInf _ = True"
| "jlt _ PInf = True"

fun jeq :: "jsnum \<Rightarrow> jsnum \<Rightarrow> bool" where
  "jeq NaN _ = False"
| "jeq _ NaN = False"
| "jeq x y = (x = y)"

definition jgt :: "jsnum \<Rightarrow> jsnum \<Rightarrow> bool" where
  "jgt x y = jlt y x"

definition jle :: "jsnum \<Rightarrow> jsnum \<Rightarrow> bool" where
  "jle x y = (jlt x y \<or> jeq x y)"

definition jge :: "jsnum \<Rightarrow> jsnum \<Rightarrow> bool" where
  "jge x y = jle y x"

text \<open>\<open>Math.sqrt\<close>, \<open>Math.abs\<close>, \<open>Math.floor\<close>, \<open>Math.min\<close>, \<open>Math.max\<close> and
  \<open>Math.pow(x, 2)\<close>.\<close>

fun jsqrt :: "jsnum \<Rightarrow> jsnum" where
  "jsqrt (Num a) = (if a < 0 then NaN else Num (sqrt a))"
| "jsqrt PInf = PInf"
| "jsqrt NInf = NaN"
| "jsqrt NaN = NaN"

fun jabs :: "jsnum \<Rightarrow> jsnum" where
  "jabs (Num a) = Num \<bar>a\<bar>"
| "jabs PInf = PInf"
| "jabs NInf = PInf"
| "jabs NaN = NaN"

fun jfloor :: "jsnum \<Rightarrow> jsnum" where
  "jfloor (Num a) = Num (of_int \<lfloor>a\<rfloor>)"
| "jfloor x = x"

definition jmin :: "jsnum \<Rightarrow> jsnum \<Rightarrow> jsnum" where
  "jmin x y = (if x = NaN \<or> y = NaN then NaN else if jlt y x then y else x)"

definition jmax :: "jsnum \<Rightarrow> jsnum \<Rightarrow> jsnum" where
  "jmax x y = (if x = NaN \<or> y = NaN then NaN else if jlt x y then y else x)"

definition jsquare :: "jsnum \<Rightarrow> jsnum" where
  "jsquare x = jmul x x"

text \<open>Truthiness of a number (\<open>!x\<close> is true for \<open>0\<close>, \<open>NaN\<close> and \<open>undefined\<close>).\<close>

definition falsy :: "jsnum \<Rightarrow> bool" where
  "falsy x = (x = NaN \<or> x = Num 0)"

text \<open>
  Reading \<open>xs[i]\<close> of a number array. Out of range the source gets \<open>undefined\<close>, which
  every use in this code coerces to \<open>NaN\<close> (arithmetic, comparison, \<open>===\<close> with a
  number, \<open>!x\<close>).
\<close>

definition js_nth :: "jsnum list \<Rightarrow> int \<Rightarrow> jsnum" where
  "js_nth xs i = (if 0 \<le> i \<and> i < int (length xs) then xs ! nat i else NaN)"

text \<open>\<open>xs.slice(-n)\<close> for a count \<open>n\<close>: the last \<open>n\<close> elements; \<open>slice(-0)\<close> is
  \<open>slice(0)\<close>, the whole array.\<close>

definition slice_last :: "nat \<Rightarrow> 'a list \<Rightarrow> 'a list" where
  "slice_last n xs = (if n = 0 then xs else drop (length xs - n) xs)"

text \<open>\<open>xs.slice(0, -n)\<close> for \<open>n > 0\<close>: all but the last \<open>n\<close> elements.\<close>

definition slice_drop_last :: "nat \<Rightarrow> 'a list \<Rightarrow> 'a list" where
  "slice_drop_last n xs = take (length xs - n) xs"

text \<open>\<open>xs.reduce((a, b) => a + b, 0)\<close>.\<close>

definition jsum :: "jsnum list \<Rightarrow> jsnum" where
  "jsum xs = foldl jadd (Num 0) xs"


section \<open>Data model (types.ts)\<close>

datatype StrategyType =
  MA_CROSSOVER | RSI_REVERSION | BOLLINGER_BREAKOUT | MACD_TREND | EMA_CROSSOVER
| MARTINGALE | ARBITRAGE

datatype Signal = BUY | SELL | NEUTRAL


text \<open>Periods count candles and are natural numbers; thresholds and percentages are reals.\<close>

record StrategyParameters =
  fastPeriod :: nat
  slowPeriod :: nat
  rsiPeriod :: nat
  rsiOverbought :: real
  rsiOversold :: real
  bbPeriod :: nat
  bbStdDev :: real
  macdFast :: nat
  macdSlow :: nat
  macdSignal :: nat
  martingalePriceDrop :: real
  martingaleProfitTarget :: real
  martingaleVolumeMultiplier :: real

record MarketCandle =
  symbol :: string
  time :: string
  timestamp :: int
  open_price :: real
  high :: real
  low :: real
  close :: real
  volume :: real
  isFinal :: "bool option"

datatype TradeSide = TradeBUY | TradeSELL

datatype TradeStatus = OPEN | CLOSED

record Trade =
  trade_id :: string
  trade_symbol :: string
  trade_type :: TradeSide
  price :: real
  amount :: real
  leverage :: real
  trade_timestamp :: int
  pnl :: "real option"
  unrealizedPnl :: "real option"
  status :: TradeStatus
  trade_strategy :: string

text \<open>\<open>CryptoCurrency.BTC\<close>, the key of the reference asset in \<open>allMarketData\<close>.\<close>

definition BTC :: string where
  "BTC = ''BTC''"

text \<open>\<open>candles.map(c => c.close)\<close> and \<open>candles[0]?.symbol\<close>.\<close>

definition closes_of :: "MarketCandle list \<Rightarrow> jsnum list" where
  "closes_of candles = map (\<lambda>c. Num (close c)) candles"

definition symbol_of :: "MarketCandle list \<Rightarrow> string option" where
  "symbol_of candles = (case candles of [] \<Rightarrow> None | c # _ \<Rightarrow> Some (symbol c))"

section \<open>Indicator helpers (the same text in both strategy services)\<close>

definition calculateSMA :: "jsnum list \<Rightarrow> nat \<Rightarrow> jsnum" where
  "calculateSMA data period =
     (if length data < period then Num 0
      else jdiv (jsum (slice_last period data)) (Num (real period)))"

text \<open>
  The loop of \<open>calculateEMASeries\<close> over \<open>i = 1 .. data.length - 1\<close>: \<open>rest\<close> is
  \<open>data[i..]\<close> and \<open>emaArray\<close> has \<open>i\<close> elements, so \<open>emaArray[i - 1]\<close> is its last.
\<close>

fun ema_loop :: "jsnum \<Rightarrow> jsnum list \<Rightarrow> jsnum list \<Rightarrow> jsnum list" where
  "ema_loop k [] emaArray = emaArray"
| "ema_loop k (d # rest) emaArray =
     ema_loop k rest
       (emaArray @ [jadd (jmul d k) (jmul (last emaArray) (jsub (Num 1) k))])"

definition ema_k :: "nat \<Rightarrow> jsnum" where
  "ema_k period = jdiv (Num 2) (jadd (Num (real period)) (Num 1))"

definition calculateEMASeries :: "jsnum list \<Rightarrow> nat \<Rightarrow> jsnum list" where
  "calculateEMASeries data period =
     (case data of [] \<Rightarrow> []
      | d0 # rest \<Rightarrow> ema_loop (ema_k period) rest [d0])"

text \<open>
  \<open>calculateRSI\<close>: the loop body at index \<open>i\<close> on the pair (gains, losses). The guard
  \<open>candles.length < period + 1\<close> keeps \<open>i - 1\<close> within the array.
\<close>

definition rsi_step :: "MarketCandle list \<Rightarrow> jsnum \<times> jsnum \<Rightarrow> nat \<Rightarrow> jsnum \<times> jsnum" where
  "rsi_step candles gl i =
     (let diff = jsub (Num (close (candles ! i))) (Num (close (candles ! (i - 1))))
      in if jge diff (Num 0) then (jadd (fst gl) diff, snd gl)
         else (fst gl, jsub (snd gl) diff))"

definition calculateRSI :: "MarketCandle list \<Rightarrow> nat \<Rightarrow> jsnum" where
  "calculateRSI candles period =
     (if length candles < period + 1 then Num 50
      else
        let gl = foldl (rsi_step candles) (Num 0, Num 0)
                   [length candles - period ..< length candles];
            gains = fst gl; losses = snd gl
        in if jeq losses (Num 0) then Num 100
           else
             let rs = jdiv gains losses
             in jsub (Num 100) (jdiv (Num 100) (jadd (Num 1) rs)))"


record BollingerBands =
  bb_upper :: jsnum
  bb_middle :: jsnum
  bb_lower :: jsnum

definition calculateBollingerBands :: "MarketCandle list \<Rightarrow> nat \<Rightarrow> real \<Rightarrow> BollingerBands" where
  "calculateBollingerBands candles period stdDevMult =
     (let closes = closes_of candles
      in if length closes < period
         then \<lparr>bb_upper = Num 0, bb_middle = Num 0, bb_lower = Num 0\<rparr>
         else
           let sma = calculateSMA closes period;
               slice = slice_last period closes;
               squaredDiffs = map (\<lambda>val. jsquare (jsub val sma)) slice;
               variance = jdiv (jsum squaredDiffs) (Num (real period));
               stdDev = jsqrt variance
           in \<lparr>bb_upper = jadd sma (jmul stdDev (Num stdDevMult)),
               bb_middle = sma,
               bb_lower = jsub sma (jmul stdDev (Num stdDevMult))\<rparr>)"

record MACD =
  macdLine :: jsnum
  signalLine :: jsnum
  prevMacdLine :: jsnum
  prevSignalLine :: jsnum

definition calculateMACD :: "MarketCandle list \<Rightarrow> nat \<Rightarrow> nat \<Rightarrow> nat \<Rightarrow> MACD" where
  "calculateMACD candles fast slow signal =
     (let closes = closes_of candles
      in if length closes < slow + signal
         then \<lparr>macdLine = Num 0, signalLine = Num 0,
               prevMacdLine = Num 0, prevSignalLine = Num 0\<rparr>
         else
           let emaFast = calculateEMASeries closes fast;
               emaSlow = calculateEMASeries closes slow;
               macdLineSeries =
                 map (\<lambda>i. jsub (js_nth emaFast (int i)) (js_nth emaSlow (int i)))
                   [0 ..< length closes];
               signalLineSeries = calculateEMASeries macdLineSeries signal
           in \<lparr>macdLine = js_nth macdLineSeries (int (length macdLineSeries) - 1),
               signalLine = js_nth signalLineSeries (int (length signalLineSeries) - 1),
               prevMacdLine = js_nth macdLineSeries (int (length macdLineSeries) - 2),
               prevSignalLine =
                 js_nth signalLineSeries (int (length signalLineSeries) - 2)\<rparr>)"

section \<open>Individual strategy signals (\<open>getStrategySignal\<close>)\<close>

definition signal_MA_CROSSOVER :: "MarketCandle list \<Rightarrow> StrategyParameters \<Rightarrow> Signal" where
  "signal_MA_CROSSOVER candles params =
     (let closes = closes_of candles;
          currentPrice = js_nth closes (int (length closes) - 1);
          fastP = fastPeriod params;
          slowP = slowPeriod params
      in if length closes < slowP + 5 then NEUTRAL
         else
           let maFast = calculateSMA closes fastP;
               maSlow = calculateSMA closes slowP;
               prevMaFast = calculateSMA (slice_drop_last 1 closes) fastP;
               prevMaSlow = calculateSMA (slice_drop_last 1 closes) slowP;
               maFast_prev3 = calculateSMA (slice_drop_last 3 closes) fastP;
               maSlow_prev3 = calculateSMA (slice_drop_last 3 closes) slowP;
               slopeFast = jdiv (jsub maFast maFast_prev3) (Num 3);
               slopeSlow = jdiv (jsub maSlow maSlow_prev3) (Num 3);
               isGoldenCross = (jle prevMaFast prevMaSlow \<and> jgt maFast maSlow);
               isDeathCross = (jge prevMaFast prevMaSlow \<and> jlt maFast maSlow)
           in if \<not> isGoldenCross \<and> \<not> isDeathCross then NEUTRAL
              else
                let slopeThreshold = jmul currentPrice (Num (5 / 100000))
                in if isGoldenCross \<and> jgt slopeFast slopeThreshold
                        \<and> jgt slopeSlow (jneg slopeThreshold) then BUY
                   else if isDeathCross \<and> jlt slopeFast (jneg slopeThreshold)
                        \<and> jlt slopeSlow slopeThreshold then SELL
                   else NEUTRAL)"

definition signal_EMA_CROSSOVER :: "MarketCandle list \<Rightarrow> StrategyParameters \<Rightarrow> Signal" where
  "signal_EMA_CROSSOVER candles params =
     (let closes = closes_of candles;
          fastP = fastPeriod params;
          slowP = slowPeriod params
      in if length closes < slowP + 1 then NEUTRAL
         else
           let emaFastSeries = calculateEMASeries closes fastP;
               emaSlowSeries = calculateEMASeries closes slowP;
               emaFast = js_nth emaFastSeries (int (length emaFastSeries) - 1);
               emaSlow = js_nth emaSlowSeries (int (length emaSlowSeries) - 1);
               prevEmaFast = js_nth emaFastSeries (int (length emaFastSeries) - 2);
               prevEmaSlow = js_nth emaSlowSeries (int (length emaSlowSeries) - 2)
           in if jle prevEmaFast prevEmaSlow \<and> jgt emaFast emaSlow then BUY
              else if jge prevEmaFast prevEmaSlow \<and> jlt emaFast emaSlow then SELL
              else NEUTRAL)"

definition signal_RSI_REVERSION :: "MarketCandle list \<Rightarrow> StrategyParameters \<Rightarrow> Signal" where
  "signal_RSI_REVERSION candles params =
     (let rsi = calculateRSI candles (rsiPeriod params)
      in if jlt rsi (Num (rsiOversold params)) then BUY
         else if jgt rsi (Num (rsiOverbought params)) then SELL
         else NEUTRAL)"

definition signal_BOLLINGER_BREAKOUT :: "MarketCandle list \<Rightarrow> StrategyParameters \<Rightarrow> Signal" where
  "signal_BOLLINGER_BREAKOUT candles params =
     (let closes = closes_of candles;
          currentPrice = js_nth closes (int (length closes) - 1);
          bands = calculateBollingerBands candles (bbPeriod params) (bbStdDev params);
          lower = bb_lower bands;
          upper = bb_upper bands
      in if jeq lower (Num 0) then NEUTRAL
         else if jle currentPrice lower then BUY
         else if jge currentPrice upper then SELL
         else NEUTRAL)"

definition signal_MACD_TREND :: "MarketCandle list \<Rightarrow> StrategyParameters \<Rightarrow> Signal" where
  "signal_MACD_TREND candles params =
     (let m = calculateMACD candles (macdFast params) (macdSlow params) (macdSignal params)
      in if jeq (macdLine m) (Num 0) \<and> jeq (signalLine m) (Num 0) then NEUTRAL
         else if jle (prevMacdLine m) (prevSignalLine m) \<and> jgt (macdLine m) (signalLine m)
           then BUY
         else if jge (prevMacdLine m) (prevSignalLine m) \<and> jlt (macdLine m) (signalLine m)
           then SELL
         else NEUTRAL)"

text \<open>The \<open>forEach\<close> of the Martingale branch on the pair (totalVol, totalCost).\<close>

definition martingale_totals :: "Trade list \<Rightarrow> jsnum \<times> jsnum" where
  "martingale_totals symbolPositions =
     foldl (\<lambda>vc p. (jadd (fst vc) (Num (amount p)),
                     jadd (snd vc) (jmul (Num (amount p)) (Num (price p)))))
       (Num 0, Num 0) symbolPositions"

definition signal_MARTINGALE ::
  "MarketCandle list \<Rightarrow> Trade list \<Rightarrow> StrategyParameters \<Rightarrow> Signal" where
  "signal_MARTINGALE candles activePositions params =
     (let closes = closes_of candles;
          currentPrice = js_nth closes (int (length closes) - 1);
          sym = symbol_of candles;
          symbolPositions =
            filter (\<lambda>p. Some (trade_symbol p) = sym \<and> status p = OPEN) activePositions
      in if length symbolPositions = 0
         then
           (let rsi = calculateRSI candles (rsiPeriod params)
            in if jlt rsi (jadd (Num (rsiOversold params)) (Num 10)) then BUY else NEUTRAL)
         else
           let lastTrade = last symbolPositions;
               entryPrice = Num (price lastTrade);
               priceChangePercent = jdiv (jsub currentPrice entryPrice) entryPrice;
               dropThreshold = jneg (jdiv (Num (martingalePriceDrop params)) (Num 100))
           in if jlt priceChangePercent dropThreshold then BUY
              else
                let profitThreshold = jdiv (Num (martingaleProfitTarget params)) (Num 100);
                    totals = martingale_totals symbolPositions;
                    totalVol = fst totals;
                    totalCost = snd totals;
                    avgPrice = jdiv totalCost totalVol;
                    avgPriceChange = jdiv (jsub currentPrice avgPrice) avgPrice
                in if jgt avgPriceChange profitThreshold then SELL else NEUTRAL)"

text \<open>
  The Correlation Arbitrage branch. \<open>allMarketData\<close> maps an asset key to its candles;
  \<open>!symbol\<close> holds for a missing and for an empty symbol. Past that check the candle
  list is not empty, so \<open>candles[candles.length - 1]\<close> is its last element.
\<close>

definition signal_ARBITRAGE ::
  "MarketCandle list \<Rightarrow> (string \<rightharpoonup> MarketCandle list) \<Rightarrow> Signal" where
  "signal_ARBITRAGE candles allMarketData =
     (let sym = symbol_of candles
      in case allMarketData BTC of
           None \<Rightarrow> NEUTRAL
         | Some btcData \<Rightarrow>
           if length btcData < 30 \<or> sym = None \<or> sym = Some [] then NEUTRAL
           else if sym = Some BTC then NEUTRAL
           else
             let btcCloses = closes_of btcData;
                 assetCloses = closes_of candles;
                 period = 20;
                 startIdx = max 1 (length btcCloses - period);
                 btcReturns =
                   map (\<lambda>i. jdiv (jsub (btcCloses ! i) (btcCloses ! (i - 1)))
                                  (btcCloses ! (i - 1)))
                     [startIdx ..< length btcCloses]
             in if length btcReturns = 0 then NEUTRAL
                else
                  let avgRet = jdiv (jsum btcReturns) (Num (real (length btcReturns)));
                      variance =
                        jdiv (foldl (\<lambda>a b. jadd a (jsquare (jsub b avgRet))) (Num 0)
                                btcReturns)
                             (Num (real (length btcReturns)));
                      btcVolatility = jsqrt variance;
                      assetVolumes = map (\<lambda>c. Num (volume c)) (slice_last period candles)
                  in if length assetVolumes = 0 then NEUTRAL
                     else
                       let avgVol =
                             jdiv (jsum assetVolumes) (Num (real (length assetVolumes)));
                           currentVol = Num (volume (last candles))
                       in if jlt currentVol (jmul avgVol (Num (4 / 10))) then NEUTRAL
                          else
                            let lookback = 5;
                                currentBtcPrice =
                                  js_nth btcCloses (int (length btcCloses) - 1);
                                prevBtcPrice =
                                  js_nth btcCloses (int (length btcCloses) - 1 - lookback);
                                currentAssetPrice =
                                  js_nth assetCloses (int (length assetCloses) - 1);
                                prevAssetPrice =
                                  js_nth assetCloses
                                    (int (length assetCloses) - 1 - lookback)
                            in if falsy prevBtcPrice \<or> falsy prevAssetPrice then NEUTRAL
                               else
                                 let btcReturn =
                                       jdiv (jsub currentBtcPrice prevBtcPrice) prevBtcPrice;
                                     assetReturn =
                                       jdiv (jsub currentAssetPrice prevAssetPrice)
                                         prevAssetPrice;
                                     volatilityThreshold =
                                       jmul (jmul btcVolatility (jsqrt (Num (of_int lookback))))
                                         (Num (3 / 2));
                                     minMoveThreshold =
                                       jmax (Num (35 / 10000)) volatilityThreshold
                                 in if jgt btcReturn minMoveThreshold
                                       \<and> jlt assetReturn (jmul btcReturn (Num (1 / 2)))
                                    then BUY
                                    else if jlt btcReturn (jneg minMoveThreshold)
                                       \<and> jgt assetReturn (jmul btcReturn (Num (1 / 2)))
                                    then SELL
                                    else NEUTRAL)"

fun getStrategySignal ::
  "StrategyType \<Rightarrow> MarketCandle list \<Rightarrow> Trade list \<Rightarrow> (string \<rightharpoonup> MarketCandle list)
     \<Rightarrow> StrategyParameters \<Rightarrow> Signal" where
  "getStrategySignal MA_CROSSOVER candles activePositions allMarketData params =
     signal_MA_CROSSOVER candles params"
| "getStrategySignal EMA_CROSSOVER candles activePositions allMarketData params =
     signal_EMA_CROSSOVER candles params"
| "getStrategySignal RSI_REVERSION candles activePositions allMarketData params =
     signal_RSI_REVERSION candles params"
| "getStrategySignal BOLLINGER_BREAKOUT candles activePositions allMarketData params =
     signal_BOLLINGER_BREAKOUT candles params"
| "getStrategySignal MACD_TREND candles activePositions allMarketData params =
     signal_MACD_TREND candles params"
| "getStrategySignal MARTINGALE candles activePositions allMarketData params =
     signal_MARTINGALE candles activePositions params"
| "getStrategySignal ARBITRAGE candles activePositions allMarketData params =
     signal_ARBITRAGE candles allMarketData"


section \<open>Composite signal, weighted average (first strategy service)\<close>







section \<open>Market regime (second strategy service)\<close>

definition calculateStdDev :: "jsnum list \<Rightarrow> jsnum" where
  "calculateStdDev data =
     (let mean = jdiv (jsum data) (Num (real (length data)));
          variance =
            jdiv (foldl (\<lambda>a b. jadd a (jsquare (jsub b mean))) (Num 0) data)
                 (Num (real (length data)))
      in jsqrt variance)"

datatype MarketRegimeType = TRENDING_UP | TRENDING_DOWN | RANGING | VOLATILE

text \<open>
  The description of a regime is one of five fixed string literals of the source; each
  constructor stands for one of them, in the order: the insufficient-data text, the
  initial (consolidation) text, and the texts set with \<open>VOLATILE\<close>, \<open>TRENDING_UP\<close> and
  \<open>TRENDING_DOWN\<close>.
\<close>

datatype RegimeDescription =
  Insufficient_Data | Consolidation | High_Volatility | Strong_Bull_Trend | Strong_Bear_Trend

record MarketRegime =
  regime_type :: MarketRegimeType
  volatility :: jsnum
  trendStrength :: jsnum
  description :: RegimeDescription

text \<open>The two scores and the two moving averages of \<open>analyzeMarketRegime\<close>.\<close>

definition regime_returns :: "jsnum list \<Rightarrow> jsnum list" where
  "regime_returns closes =
     map (\<lambda>i. jdiv (jsub (closes ! i) (closes ! (i - 1))) (closes ! (i - 1)))
       [1 ..< length closes]"

definition regime_volatilityScore :: "jsnum list \<Rightarrow> jsnum" where
  "regime_volatilityScore closes =
     (let period = 20;
          recentReturns = slice_last period (regime_returns closes);
          volRaw = jmul (calculateStdDev recentReturns) (jsqrt (Num (real period)))
      in jmin (Num 100) (jmul volRaw (Num 10000)))"

definition regime_trendScore :: "jsnum list \<Rightarrow> jsnum" where
  "regime_trendScore closes =
     (let shortMa = calculateSMA closes 7;
          longMa = calculateSMA closes 25;
          gap = jdiv (jsub shortMa longMa) longMa
      in jmin (Num 100) (jmul (jabs gap) (Num 5000)))"

definition analyzeMarketRegime :: "MarketCandle list \<Rightarrow> MarketRegime" where
  "analyzeMarketRegime candles =
     (if length candles < 30
      then \<lparr>regime_type = RANGING, volatility = Num 0, trendStrength = Num 0,
            description = Insufficient_Data\<rparr>
      else
        let closes = closes_of candles;
            volatilityScore = regime_volatilityScore closes;
            shortMa = calculateSMA closes 7;
            longMa = calculateSMA closes 25;
            trendScore = regime_trendScore closes;
            td =
              (if jgt volatilityScore (Num 60) then (VOLATILE, High_Volatility)
               else if jgt trendScore (Num 20)
                 then (if jgt shortMa longMa then (TRENDING_UP, Strong_Bull_Trend)
                       else (TRENDING_DOWN, Strong_Bear_Trend))
               else (RANGING, Consolidation))
        in \<lparr>regime_type = fst td, volatility = volatilityScore,
            trendStrength = trendScore, description = snd td\<rparr>)"

section \<open>Strategy insights and the regime-tuned composite (second strategy service)\<close>

text \<open>
  An insight without its weights. The \<open>metrics\<close> and \<open>tuningAction\<close> fields are
  display strings formatted from the values below; nothing reads them back, and they
  are left out.
\<close>

record RawInsight =
  ri_type :: StrategyType
  ri_signal :: Signal
  ri_rawScore :: real


definition insight_MA_CROSSOVER :: "MarketCandle list \<Rightarrow> StrategyParameters \<Rightarrow> Signal \<times> real" where
  "insight_MA_CROSSOVER candles params =
     (let closes = closes_of candles;
          maFast = calculateSMA closes (fastPeriod params);
          maSlow = calculateSMA closes (slowPeriod params);
          spread = jmul (jdiv (jsub maFast maSlow) maSlow) (Num 100)
      in if jgt maFast maSlow \<and> jgt spread (Num (5 / 100)) then (BUY, 8 / 10)
         else if jlt maFast maSlow \<and> jlt spread (Num (- (5 / 100))) then (SELL, - (8 / 10))
         else (NEUTRAL, 0))"

definition insight_RSI_REVERSION ::
  "MarketCandle list \<Rightarrow> StrategyParameters \<Rightarrow> MarketRegime \<Rightarrow> Signal \<times> real" where
  "insight_RSI_REVERSION candles params regime =
     (let rsi = calculateRSI candles (rsiPeriod params);
          buyThresh0 = Num (rsiOversold params);
          sellThresh0 = Num (rsiOverbought params);
          trendOffset = jfloor (jdiv (trendStrength regime) (Num 5));
          thresholds =
            (if regime_type regime = TRENDING_UP
               then (buyThresh0, jadd sellThresh0 (jadd (Num 5) trendOffset))
             else if regime_type regime = TRENDING_DOWN
               then (jsub buyThresh0 (jadd (Num 5) trendOffset), sellThresh0)
             else if regime_type regime = VOLATILE
               then (jsub buyThresh0 (Num 5), jadd sellThresh0 (Num 5))
             else (buyThresh0, sellThresh0));
          buyThresh = fst thresholds;
          sellThresh = snd thresholds
      in if jlt rsi buyThresh then (BUY, 1)
         else if jgt rsi sellThresh then (SELL, - 1)
         else (NEUTRAL, 0))"

definition insight_BOLLINGER_BREAKOUT ::
  "MarketCandle list \<Rightarrow> StrategyParameters \<Rightarrow> Signal \<times> real" where
  "insight_BOLLINGER_BREAKOUT candles params =
     (let closes = closes_of candles;
          currentPrice = js_nth closes (int (length closes) - 1);
          sma = calculateSMA closes (bbPeriod params);
          slice = slice_last (bbPeriod params) closes;
          variance =
            jdiv (foldl (\<lambda>a b. jadd a (jsquare (jsub b sma))) (Num 0) slice)
                 (Num (real (bbPeriod params)));
          stdDev = jsqrt variance;
          upper = jadd sma (jmul stdDev (Num (bbStdDev params)));
          lower = jsub sma (jmul stdDev (Num (bbStdDev params)))
      in if jlt currentPrice lower then (BUY, 1)
         else if jgt currentPrice upper then (SELL, - 1)
         else (NEUTRAL, 0))"

definition insight_MACD_TREND :: "MarketCandle list \<Rightarrow> StrategyParameters \<Rightarrow> Signal \<times> real" where
  "insight_MACD_TREND candles params =
     (let closes = closes_of candles;
          emaFast = calculateEMASeries closes (macdFast params);
          emaSlow = calculateEMASeries closes (macdSlow params);
          macdLine = jsub (js_nth emaFast (int (length emaFast) - 1))
                          (js_nth emaSlow (int (length emaSlow) - 1));
          macdSeries =
            map (\<lambda>i. jsub (emaFast ! i) (js_nth emaSlow (int i))) [0 ..< length emaFast];
          signalSeries = calculateEMASeries macdSeries (macdSignal params);
          signalLine = js_nth signalSeries (int (length signalSeries) - 1);
          hist = jsub macdLine signalLine;
          sr1 = (if jgt hist (Num 0) \<and> jgt macdLine (Num 0) then (BUY, 7 / 10)
                 else (NEUTRAL, 0))
      in if jlt hist (Num 0) \<and> jlt macdLine (Num 0) then (SELL, - (7 / 10)) else sr1)"

text \<open>
  \<open>getStrategyInsight\<close>: the switch has four cases; every other strategy type takes the
  default branch, which leaves the signal at its initial value \<open>NEUTRAL\<close>.
\<close>

definition getStrategyInsight ::
  "StrategyType \<Rightarrow> MarketCandle list \<Rightarrow> Trade list \<Rightarrow> (string \<rightharpoonup> MarketCandle list)
     \<Rightarrow> StrategyParameters \<Rightarrow> MarketRegime \<Rightarrow> RawInsight" where
  "getStrategyInsight strategy candles activePositions allMarketData params regime =
     (let sr =
        (case strategy of
           MA_CROSSOVER \<Rightarrow> insight_MA_CROSSOVER candles params
         | RSI_REVERSION \<Rightarrow> insight_RSI_REVERSION candles params regime
         | BOLLINGER_BREAKOUT \<Rightarrow> insight_BOLLINGER_BREAKOUT candles params
         | MACD_TREND \<Rightarrow> insight_MACD_TREND candles params
         | _ \<Rightarrow> (NEUTRAL, 0))
      in \<lparr>ri_type = strategy, ri_signal = fst sr, ri_rawScore = snd sr\<rparr>)"

text \<open>
  \<open>parseFloat(x.toFixed(2))\<close>: \<open>toFixed\<close> works on the magnitude, takes the integer \<open>n\<close>
  with \<open>n / 100\<close> nearest to it (the larger on a tie), and prints the number itself
  from \<open>10^21\<close> on.
\<close>

fun toFixed2 :: "jsnum \<Rightarrow> jsnum" where
  "toFixed2 (Num a) =
     (if 10 ^ 21 \<le> \<bar>a\<bar> then Num a
      else Num (sgn a * (of_int \<lfloor>\<bar>a\<bar> * 100 + 1 / 2\<rfloor> / 100)))"
| "toFixed2 x = x"

text \<open>The auto-tuning block of the composite: the three rules, then the rounding.\<close>

definition tunedWeight :: "MarketRegime \<Rightarrow> StrategyType \<Rightarrow> real \<Rightarrow> jsnum" where
  "tunedWeight regime ty w =
     (let w0 = Num w;
          w1 =
            (if ty \<in> set [MA_CROSSOVER, EMA_CROSSOVER, MACD_TREND]
             then (if regime_type regime \<in> {TRENDING_UP, TRENDING_DOWN}
                     then jmul w0 (Num (3 / 2))
                   else if regime_type regime = RANGING then jmul w0 (Num (1 / 2))
                   else w0)
             else w0);
          w2 =
            (if ty \<in> set [RSI_REVERSION, BOLLINGER_BREAKOUT]
             then (if regime_type regime = RANGING then jmul w1 (Num (3 / 2))
                   else if jgt (trendStrength regime) (Num 70) then jmul w1 (Num (1 / 2))
                   else w1)
             else w1)
      in if regime_type regime = VOLATILE
         then (if ty = MA_CROSSOVER then jmul w2 (Num (7 / 10)) else w2)
         else w2)"

definition autoTune :: "MarketRegime \<Rightarrow> StrategyType \<Rightarrow> real \<Rightarrow> jsnum" where
  "autoTune regime ty w = toFixed2 (tunedWeight regime ty w)"







section \<open>The position-aware and the cross-asset strategy, as specified\<close>

text \<open>
  The two definitions of this section are written from the specification, over exact
  reals, to be compared with \<open>signal_MARTINGALE\<close> and \<open>signal_ARBITRAGE\<close>.
\<close>





definition mean :: "real list \<Rightarrow> real" where
  "mean xs = sum_list xs / real (length xs)"







section \<open>Sample data\<close>

text \<open>A finalized candle of asset \<open>s\<close> with all four prices at \<open>c\<close> and volume \<open>v\<close>.\<close>

definition candle :: "string \<Rightarrow> real \<Rightarrow> real \<Rightarrow> MarketCandle" where
  "candle s c v =
     \<lparr>symbol = s, time = [], timestamp = 0, open_price = c, high = c, low = c,
      close = c, volume = v, isFinal = Some True\<rparr>"





text \<open>The strategy parameters of the application's default configuration.\<close>

definition defaultStrategyParams :: StrategyParameters where
  "defaultStrategyParams =
     \<lparr>fastPeriod = 7, slowPeriod = 25, rsiPeriod = 14, rsiOverbought = 70,
      rsiOversold = 30, bbPeriod = 20, bbStdDev = 2, macdFast = 12, macdSlow = 26,
      macdSignal = 9, martingalePriceDrop = 3 / 2, martingaleProfitTarget = 5 / 2,
      martingaleVolumeMultiplier = 1\<rparr>"

section \<open>The EMA series\<close>

lemma ema_loop_length: "length (ema_loop k rest acc) = length acc + length rest"
  by (induction rest arbitrary: acc) auto





lemma calculateEMASeries_length [simp]:
  "length (calculateEMASeries data period) = length data"
  by (simp add: calculateEMASeries_def ema_loop_length split: list.split)



section \<open>The relative strength index\<close>

lemma rsi_fold_finite:
  "\<exists>g' l'. foldl (rsi_step cs) (Num g, Num l) idxs = (Num g', Num l') \<and> g \<le> g' \<and> l \<le> l'"
proof (induction idxs arbitrary: g l)
  case Nil
  then show ?case by simp
next
  case (Cons i idxs)
  define d where "d = close (cs ! i) - close (cs ! (i - 1))"
  have step: "rsi_step cs (Num g, Num l) i =
      (if 0 \<le> d then (Num (g + d), Num l) else (Num g, Num (l - d)))"
    by (simp add: rsi_step_def jsub_def jge_def jle_def d_def Let_def)
  show ?case
  proof (cases "0 \<le> d")
    case True
    from Cons.IH[of "g + d" l] obtain g' l' where
      "foldl (rsi_step cs) (Num (g + d), Num l) idxs = (Num g', Num l')" "g + d \<le> g'" "l \<le> l'"
      by blast
    then show ?thesis using True step by auto
  next
    case False
    from Cons.IH[of g "l - d"] obtain g' l' where
      "foldl (rsi_step cs) (Num g, Num (l - d)) idxs = (Num g', Num l')" "g \<le> g'" "l - d \<le> l'"
      by blast
    then show ?thesis using False step by auto
  qed
qed

lemma rsi_fold_no_loss:
  "\<forall>i \<in> set idxs. close (cs ! (i - 1)) \<le> close (cs ! i) \<Longrightarrow>
   snd (foldl (rsi_step cs) (g, Num l) idxs) = Num l"
proof (induction idxs arbitrary: g)
  case Nil
  then show ?case by simp
next
  case (Cons i idxs)
  have "rsi_step cs (g, Num l) i =
        (jadd g (Num (close (cs ! i) - close (cs ! (i - 1)))), Num l)"
    using Cons.prems by (auto simp add: rsi_step_def jsub_def jge_def jle_def Let_def)
  then show ?case using Cons by simp
qed

lemma calculateRSI_short:
  "length candles < period + 1 \<Longrightarrow> calculateRSI candles period = Num 50"
  by (simp add: calculateRSI_def)

lemma calculateRSI_no_loss:
  assumes "period + 1 \<le> length candles"
    and "\<forall>i. length candles - period \<le> i \<and> i < length candles
             \<longrightarrow> close (candles ! (i - 1)) \<le> close (candles ! i)"
  shows "calculateRSI candles period = Num 100"
proof -
  have "snd (foldl (rsi_step candles) (Num 0, Num 0)
          [length candles - period ..< length candles]) = Num 0"
    using assms by (intro rsi_fold_no_loss) auto
  then show ?thesis using assms by (simp add: calculateRSI_def Let_def)
qed

lemma calculateRSI_range:
  "\<exists>r. calculateRSI candles period = Num r \<and> 0 \<le> r \<and> r \<le> 100"
proof (cases "length candles < period + 1")
  case True
  then show ?thesis by (simp add: calculateRSI_def)
next
  case long: False
  obtain g l where gl: "foldl (rsi_step candles) (Num 0, Num 0)
          [length candles - period ..< length candles] = (Num g, Num l)" "0 \<le> g" "0 \<le> l"
    using rsi_fold_finite[of candles 0 0] by blast
  show ?thesis
  proof (cases "l = 0")
    case True
    then show ?thesis using long gl by (simp add: calculateRSI_def Let_def)
  next
    case False
    then have lpos: "0 < l" using gl by simp
    define q where "q = g / l"
    have q: "0 \<le> q" using gl lpos by (simp add: q_def)
    then have "1 + q \<noteq> 0" by linarith
    moreover have "100 / (1 + q) \<le> 100" using q by (simp add: divide_le_eq)
    moreover have "0 \<le> 100 / (1 + q)" using q by simp
    ultimately show ?thesis unfolding q_def
      using long gl False by (simp add: calculateRSI_def Let_def jsub_def)
  qed
qed

text \<open>
  C6. For every candle sequence and every period \<open>calculateRSI\<close> returns a finite value
  between 0 and 100; with at least \<open>period + 1\<close> candles and no falling close over the
  last \<open>period\<close> bars it returns exactly 100; with fewer than \<open>period + 1\<close> candles it
  returns exactly 50.
\<close>

theorem C6_rsi_range:
  "(\<exists>r. calculateRSI candles period = Num r \<and> 0 \<le> r \<and> r \<le> 100)
 \<and> (period + 1 \<le> length candles
      \<and> (\<forall>i. length candles - period \<le> i \<and> i < length candles
             \<longrightarrow> close (candles ! (i - 1)) \<le> close (candles ! i))
      \<longrightarrow> calculateRSI candles period = Num 100)
 \<and> (length candles < period + 1 \<longrightarrow> calculateRSI candles period = Num 50)"
  using calculateRSI_range calculateRSI_no_loss calculateRSI_short by blast

theorem C6_rsi_range_witness:
  "calculateRSI [candle ''ETH'' 1 1, candle ''ETH'' 2 1, candle ''ETH'' 2 1] 2 = Num 100
 \<and> calculateRSI [] 14 = Num 50"
proof -
  let ?cs = "[candle ''ETH'' 1 1, candle ''ETH'' 2 1, candle ''ETH'' 2 1]"
  have "\<forall>i. length ?cs - 2 \<le> i \<and> i < length ?cs
             \<longrightarrow> close (?cs ! (i - 1)) \<le> close (?cs ! i)"
    by (auto simp: nth_Cons' candle_def)
  then have "calculateRSI ?cs 2 = Num 100"
    using C6_rsi_range[of ?cs 2] by simp
  moreover have "calculateRSI [] 14 = Num 50"
    using C6_rsi_range[of "[]" 14] by simp
  ultimately show ?thesis by simp
qed

section \<open>Short histories and flat markets\<close>


lemma calculateRSI_flat:
  assumes "rsiP + 1 \<le> length candles" and "\<forall>i < length candles. close (candles ! i) = c"
  shows "calculateRSI candles rsiP = Num 100"
proof (rule calculateRSI_no_loss[OF assms(1)])
  show "\<forall>i. length candles - rsiP \<le> i \<and> i < length candles
          \<longrightarrow> close (candles ! (i - 1)) \<le> close (candles ! i)"
    using assms(2) by (metis less_imp_diff_less order_refl)
qed

text \<open>
  C10 (amended). On at least \<open>rsiPeriod + 1\<close> candles whose closes are all equal,
  \<open>calculateRSI\<close> returns 100 (a zero delta counts as a gain and the losses stay 0),
  and RSI Reversion returns SELL whenever the overbought threshold is below 100 and the
  oversold threshold is at most 100.
\<close>

theorem C10_flat_market_sell:
  assumes "rsiPeriod params + 1 \<le> length candles"
    and "\<forall>i < length candles. close (candles ! i) = c"
  shows "calculateRSI candles (rsiPeriod params) = Num 100
       \<and> (rsiOverbought params < 100 \<and> rsiOversold params \<le> 100 \<longrightarrow>
            getStrategySignal RSI_REVERSION candles activePositions allMarketData params = SELL)"
  using calculateRSI_flat[OF assms] by (simp add: signal_RSI_REVERSION_def jgt_def)

text \<open>
  C10 as stated fails: with an overbought threshold of 70 but an oversold threshold of
  150, fifteen flat candles give RSI 100, which is below the oversold threshold, and
  the oversold test comes first, so the signal is BUY.
\<close>

theorem C10_flat_market_counterexample:
  "rsiPeriod (defaultStrategyParams\<lparr>rsiOversold := 150\<rparr>) + 1
     \<le> length (replicate 15 (candle ''ETH'' 100 1))
 \<and> set (map close (replicate 15 (candle ''ETH'' 100 1))) = {100}
 \<and> rsiOverbought (defaultStrategyParams\<lparr>rsiOversold := 150\<rparr>) < 100
 \<and> getStrategySignal RSI_REVERSION (replicate 15 (candle ''ETH'' 100 1)) [] Map.empty
      (defaultStrategyParams\<lparr>rsiOversold := 150\<rparr>) = BUY"
proof -
  have "calculateRSI (replicate 15 (candle ''ETH'' 100 1)) 14 = Num 100"
    by (rule calculateRSI_flat[where c = 100]) (simp_all add: candle_def)
  then show ?thesis
    by (simp add: signal_RSI_REVERSION_def defaultStrategyParams_def candle_def)
qed

theorem C10_flat_market_sell_witness:
  "calculateRSI (replicate 15 (candle ''ETH'' 100 1)) (rsiPeriod defaultStrategyParams) = Num 100
 \<and> getStrategySignal RSI_REVERSION (replicate 15 (candle ''ETH'' 100 1)) [] Map.empty
      defaultStrategyParams = SELL"
proof -
  have a: "rsiPeriod defaultStrategyParams + 1 \<le> length (replicate 15 (candle ''ETH'' 100 1))"
    by (simp add: defaultStrategyParams_def)
  have b: "\<forall>i < length (replicate 15 (candle ''ETH'' 100 1)).
       close (replicate 15 (candle ''ETH'' 100 1) ! i) = 100"
    by (simp add: candle_def)
  have c: "rsiOverbought defaultStrategyParams < 100 \<and> rsiOversold defaultStrategyParams \<le> 100"
    by (simp add: defaultStrategyParams_def)
  show ?thesis using C10_flat_market_sell[OF a b, of "[]" Map.empty] c by simp
qed

lemma calculateBollingerBands_short:
  "length candles < period \<Longrightarrow>
   calculateBollingerBands candles period m = \<lparr>bb_upper = Num 0, bb_middle = Num 0, bb_lower = Num 0\<rparr>"
  by (simp add: calculateBollingerBands_def closes_of_def)

lemma calculateMACD_short:
  "length candles < slow + sig \<Longrightarrow>
   calculateMACD candles fast slow sig =
     \<lparr>macdLine = Num 0, signalLine = Num 0, prevMacdLine = Num 0, prevSignalLine = Num 0\<rparr>"
  by (simp add: calculateMACD_def closes_of_def)

text \<open>
  C2 (amended). Below its minimum history each strategy returns NEUTRAL: MA Crossover
  below \<open>slowPeriod + 5\<close> candles, EMA Crossover below \<open>slowPeriod + 1\<close>, Bollinger
  Breakout below \<open>bbPeriod\<close>, MACD Trend below \<open>macdSlow + macdSignal\<close>, Correlation
  Arbitrage with a reference history that is missing or below 30 candles; RSI
  Reversion below \<open>rsiPeriod + 1\<close> candles provided the oversold threshold is at most 50
  and the overbought threshold at least 50, the sentinel RSI 50 being compared with
  both thresholds as any other value.
\<close>

theorem C2_short_history_neutral:
  "(length candles < slowPeriod params + 5 \<longrightarrow>
      getStrategySignal MA_CROSSOVER candles activePositions allMarketData params = NEUTRAL)
 \<and> (length candles < slowPeriod params + 1 \<longrightarrow>
      getStrategySignal EMA_CROSSOVER candles activePositions allMarketData params = NEUTRAL)
 \<and> (length candles < rsiPeriod params + 1
      \<and> rsiOversold params \<le> 50 \<and> 50 \<le> rsiOverbought params \<longrightarrow>
      getStrategySignal RSI_REVERSION candles activePositions allMarketData params = NEUTRAL)
 \<and> (length candles < bbPeriod params \<longrightarrow>
      getStrategySignal BOLLINGER_BREAKOUT candles activePositions allMarketData params = NEUTRAL)
 \<and> (length candles < macdSlow params + macdSignal params \<longrightarrow>
      getStrategySignal MACD_TREND candles activePositions allMarketData params = NEUTRAL)
 \<and> ((\<forall>btcData. allMarketData BTC = Some btcData \<longrightarrow> length btcData < 30) \<longrightarrow>
      getStrategySignal ARBITRAGE candles activePositions allMarketData params = NEUTRAL)"
proof (intro conjI impI)
  show "getStrategySignal MA_CROSSOVER candles activePositions allMarketData params = NEUTRAL"
    if "length candles < slowPeriod params + 5"
    using that by (simp add: signal_MA_CROSSOVER_def closes_of_def)
  show "getStrategySignal EMA_CROSSOVER candles activePositions allMarketData params = NEUTRAL"
    if "length candles < slowPeriod params + 1"
    using that by (simp add: signal_EMA_CROSSOVER_def closes_of_def)
  show "getStrategySignal RSI_REVERSION candles activePositions allMarketData params = NEUTRAL"
    if "length candles < rsiPeriod params + 1
      \<and> rsiOversold params \<le> 50 \<and> 50 \<le> rsiOverbought params"
    using that by (simp add: signal_RSI_REVERSION_def calculateRSI_short jgt_def)
  show "getStrategySignal BOLLINGER_BREAKOUT candles activePositions allMarketData params = NEUTRAL"
    if "length candles < bbPeriod params"
    using that by (simp add: signal_BOLLINGER_BREAKOUT_def calculateBollingerBands_short)
  show "getStrategySignal MACD_TREND candles activePositions allMarketData params = NEUTRAL"
    if "length candles < macdSlow params + macdSignal params"
    using that by (simp add: signal_MACD_TREND_def calculateMACD_short)
  show "getStrategySignal ARBITRAGE candles activePositions allMarketData params = NEUTRAL"
    if "\<forall>btcData. allMarketData BTC = Some btcData \<longrightarrow> length btcData < 30"
    using that by (cases "allMarketData BTC") (simp_all add: signal_ARBITRAGE_def)
qed

text \<open>
  C2 as stated fails for RSI Reversion: with no candles at all and an oversold
  threshold of 60, the sentinel RSI 50 is below the threshold and the signal is BUY.
\<close>

theorem C2_short_history_counterexample:
  "length ([] :: MarketCandle list) < rsiPeriod (defaultStrategyParams\<lparr>rsiOversold := 60\<rparr>) + 1
 \<and> getStrategySignal RSI_REVERSION [] [] Map.empty (defaultStrategyParams\<lparr>rsiOversold := 60\<rparr>)
     = BUY"
  by (simp add: signal_RSI_REVERSION_def calculateRSI_short defaultStrategyParams_def)

theorem C2_short_history_neutral_witness:
  "getStrategySignal MA_CROSSOVER [] [] Map.empty defaultStrategyParams = NEUTRAL
 \<and> getStrategySignal EMA_CROSSOVER [] [] Map.empty defaultStrategyParams = NEUTRAL
 \<and> getStrategySignal RSI_REVERSION [] [] Map.empty defaultStrategyParams = NEUTRAL
 \<and> getStrategySignal BOLLINGER_BREAKOUT [] [] Map.empty defaultStrategyParams = NEUTRAL
 \<and> getStrategySignal MACD_TREND [] [] Map.empty defaultStrategyParams = NEUTRAL
 \<and> getStrategySignal ARBITRAGE [] [] Map.empty defaultStrategyParams = NEUTRAL"
proof -
  have "length ([] :: MarketCandle list) < slowPeriod defaultStrategyParams + 5"
    "length ([] :: MarketCandle list) < slowPeriod defaultStrategyParams + 1"
    "length ([] :: MarketCandle list) < rsiPeriod defaultStrategyParams + 1
      \<and> rsiOversold defaultStrategyParams \<le> 50 \<and> 50 \<le> rsiOverbought defaultStrategyParams"
    "length ([] :: MarketCandle list) < bbPeriod defaultStrategyParams"
    "length ([] :: MarketCandle list) < macdSlow defaultStrategyParams + macdSignal defaultStrategyParams"
    "\<forall>btcData. (Map.empty :: string \<rightharpoonup> MarketCandle list) BTC = Some btcData \<longrightarrow> length btcData < 30"
    by (simp_all add: defaultStrategyParams_def)
  then show ?thesis
    using C2_short_history_neutral[of "[]" defaultStrategyParams "[]" Map.empty] by blast
qed

section \<open>Auto-tuned weights\<close>

lemma tunedWeight_factor:
  "\<exists>m. tunedWeight regime ty w = Num (w * m) \<and> 1 / 2 \<le> m \<and> m \<le> 3 / 2"
proof -
  have "tunedWeight regime ty w \<in> {Num (w * 1), Num (w * (3 / 2)), Num (w * (1 / 2)), Num (w * (7 / 10))}"
    by (cases ty; cases "regime_type regime") (simp_all add: tunedWeight_def Let_def)
  then consider "tunedWeight regime ty w = Num (w * 1)" | "tunedWeight regime ty w = Num (w * (3 / 2))"
    | "tunedWeight regime ty w = Num (w * (1 / 2))" | "tunedWeight regime ty w = Num (w * (7 / 10))"
    by blast
  then show ?thesis
  proof cases
    case 1 then show ?thesis by (intro exI[of _ 1]) simp
  next
    case 2 then show ?thesis by (intro exI[of _ "3 / 2"]) simp
  next
    case 3 then show ?thesis by (intro exI[of _ "1 / 2"]) simp
  next
    case 4 then show ?thesis by (intro exI[of _ "7 / 10"]) simp
  qed
qed

lemma tunedWeight_unmatched:
  "ty \<in> {MARTINGALE, ARBITRAGE} \<Longrightarrow> tunedWeight regime ty w = Num w"
  by (auto simp: tunedWeight_def Let_def)

lemma toFixed2_nonneg:
  assumes "0 \<le> x"
  shows "\<exists>r. toFixed2 (Num x) = Num r \<and> 0 \<le> r
           \<and> (x < 10 ^ 21 \<longrightarrow> \<bar>r - x\<bar> \<le> 1 / 200 \<and> (\<exists>n::int. r = of_int n / 100))"
proof (cases "x < 10 ^ 21")
  case False
  then show ?thesis using assms by simp
next
  case True
  define n where "n = \<lfloor>x * 100 + 1 / 2\<rfloor>"
  have n0: "0 \<le> n" using assms by (simp add: n_def)
  have lo: "of_int n \<le> x * 100 + 1 / 2" and hi: "x * 100 + 1 / 2 < of_int n + 1"
    unfolding n_def by linarith+
  show ?thesis
  proof (cases "x = 0")
    case True
    then show ?thesis by (simp add: exI[of _ 0])
  next
    case False
    then have a: "toFixed2 (Num x) = Num (of_int n / 100)"
      using assms True by (simp add: n_def)
    have b: "\<bar>of_int n / 100 - x\<bar> \<le> 1 / 200"
    proof -
      have "of_int n / 100 - x \<le> 1 / 200" "- (1 / 200) \<le> of_int n / 100 - x"
        using lo hi by linarith+
      then show ?thesis by linarith
    qed
    have c: "(0::real) \<le> of_int n / 100" using n0 by simp
    have d: "\<exists>k::int. (of_int n / 100 :: real) = of_int k / 100" by blast
    show ?thesis using a b c d by blast
  qed
qed

lemma toFixed2_two_decimals:
  assumes "0 \<le> w" and "w = of_int n / 100"
  shows "toFixed2 (Num w) = Num w"
proof -
  have "\<lfloor>w * 100 + 1 / 2\<rfloor> = n"
    using assms(2) by (simp add: floor_unique)
  moreover have "sgn w * w = w" using assms(1) by (simp add: sgn_if)
  ultimately show ?thesis using assms by (simp add: sgn_if)
qed

text \<open>
  C5 (amended). For every non-negative base weight, strategy type and regime the tuned
  weight and the adjusted weight are finite, the adjusted weight is not negative and,
  below \<open>10^21\<close>, is a multiple of 0.01 within 0.005 of the tuned weight; for Martingale
  and Correlation Arbitrage the tuned weight is the base weight, so the adjusted weight
  is the base weight rounded to two decimals, and it equals the base weight whenever
  that is a multiple of 0.01.
\<close>

theorem C5_auto_tune_weight:
  assumes "0 \<le> w"
  shows "\<exists>x r. tunedWeight regime ty w = Num x \<and> autoTune regime ty w = Num r
           \<and> 0 \<le> r
           \<and> (x < 10 ^ 21 \<longrightarrow> \<bar>r - x\<bar> \<le> 1 / 200 \<and> (\<exists>n::int. r = of_int n / 100))
           \<and> (ty \<in> {MARTINGALE, ARBITRAGE} \<longrightarrow> x = w)
           \<and> (ty \<in> {MARTINGALE, ARBITRAGE} \<and> (\<exists>n::int. w = of_int n / 100) \<longrightarrow> r = w)"
proof -
  obtain m where m: "tunedWeight regime ty w = Num (w * m)" "1 / 2 \<le> m"
    using tunedWeight_factor by blast
  have x0: "0 \<le> w * m" using assms m(2) by simp
  obtain r where r: "toFixed2 (Num (w * m)) = Num r" "0 \<le> r"
     "w * m < 10 ^ 21 \<longrightarrow> \<bar>r - w * m\<bar> \<le> 1 / 200 \<and> (\<exists>n::int. r = of_int n / 100)"
    using toFixed2_nonneg[OF x0] by blast
  have u: "w * m = w" if "ty \<in> {MARTINGALE, ARBITRAGE}"
    using tunedWeight_unmatched[OF that, of regime w] m(1) by simp
  have v: "r = w" if "ty \<in> {MARTINGALE, ARBITRAGE}" "\<exists>n::int. w = of_int n / 100"
  proof -
    from that(2) obtain n :: int where "w = of_int n / 100" by blast
    from toFixed2_two_decimals[OF assms this] have "toFixed2 (Num w) = Num w" .
    moreover have "toFixed2 (Num w) = Num r" using u[OF that(1)] r(1) by (simp only:)
    ultimately show ?thesis by (simp only: jsnum.inject)
  qed
  show ?thesis
    using m(1) r u v by (intro exI[of _ "w * m"] exI[of _ r]) (simp add: autoTune_def)
qed

text \<open>
  C5 as stated fails: the rounding is applied to every strategy type, so a Martingale
  base weight of 1.234 is adjusted to 1.23.
\<close>

theorem C5_auto_tune_counterexample:
  "(0::real) \<le> 1234 / 1000
 \<and> autoTune (analyzeMarketRegime []) MARTINGALE (1234 / 1000) = Num (123 / 100)
 \<and> autoTune (analyzeMarketRegime []) MARTINGALE (1234 / 1000) \<noteq> Num (1234 / 1000)"
  by (simp add: autoTune_def tunedWeight_def analyzeMarketRegime_def)

theorem C5_auto_tune_weight_witness:
  "(0::real) \<le> 5 \<and> MARTINGALE \<in> {MARTINGALE, ARBITRAGE} \<and> (\<exists>n::int. (5::real) = of_int n / 100)
 \<and> autoTune (analyzeMarketRegime []) MARTINGALE 5 = Num 5"
proof -
  have h: "\<exists>n::int. (5::real) = of_int n / 100" by (intro exI[of _ 500]) simp
  from C5_auto_tune_weight[of 5 "analyzeMarketRegime []" MARTINGALE] h
  have "autoTune (analyzeMarketRegime []) MARTINGALE 5 = Num 5" by auto
  then show ?thesis using h by simp
qed

section \<open>Composite scores\<close>












section \<open>Market regime classification\<close>
















section \<open>Insight signals of the regime-tuned composite\<close>



text \<open>The default branch of \<open>getStrategyInsight\<close> leaves the signal at NEUTRAL.\<close>

lemma insight_default_neutral:
  "ty \<in> {EMA_CROSSOVER, MARTINGALE, ARBITRAGE} \<Longrightarrow>
   ri_signal (getStrategyInsight ty cn ap md ps rg) = NEUTRAL"
  by (auto simp: getStrategyInsight_def Let_def)





section \<open>Martingale\<close>









section \<open>Correlation arbitrage\<close>



















end
